theory Spec2Isabelle
  imports Complex_Main "HOL-Library.Word"
begin

section \<open>Transcript assembler (InterviewSession.handleStreamingLog)\<close>

text \<open>
  \<^verbatim>\<open>type LogMessage = { role: 'user' | 'model' | 'system'; text: string; timestamp: number }\<close>

  The field \<open>text\<close> is called \<open>msg_text\<close> here, since \<open>text\<close> is a command of the
  theory language. Timestamps are the integer milliseconds \<^verbatim>\<open>Date.now()\<close> returns; the
  reading of the wall clock is an argument of the function.
\<close>

datatype role = User | Model | System

record LogMessage =
  role :: role
  msg_text :: string
  timestamp :: nat

text \<open>\<^verbatim>\<open>String.prototype.startsWith\<close> and \<^verbatim>\<open>endsWith\<close> (without a position argument).\<close>

definition startsWith :: "string \<Rightarrow> string \<Rightarrow> bool" where
  "startsWith s p = (take (length p) s = p)"

definition endsWith :: "string \<Rightarrow> string \<Rightarrow> bool" where
  "endsWith s p = (length p \<le> length s \<and> drop (length s - length p) s = p)"

text \<open>
  The updater that \<^verbatim>\<open>handleStreamingLog\<close> hands to \<^verbatim>\<open>setLogs\<close>:
  \<^verbatim>\<open>
  if (prev.length > 0 && prev[prev.length - 1].role === role && role !== 'system') {
    const lastLog = prev[prev.length - 1];
    const needsSpace = lastLog.text.length > 0 && !lastLog.text.endsWith(' ') && !text.startsWith(' ');
    const updatedText = lastLog.text + (needsSpace ? ' ' : '') + text;
    const newLogs = [...prev.slice(0, -1), { ...lastLog, text: updatedText }];
    return newLogs;
  }
  const newLog = { role, text, timestamp: Date.now() };
  return [...prev, newLog];
  \<close>
  The index \<open>prev.length - 1\<close> is read only behind the test \<open>prev.length > 0\<close>.
\<close>

definition handleStreamingLog :: "LogMessage list \<Rightarrow> role \<Rightarrow> string \<Rightarrow> nat \<Rightarrow> LogMessage list" where
  "handleStreamingLog prev r t now =
     (if length prev > 0 \<and> role (prev ! (length prev - 1)) = r \<and> r \<noteq> System then
        (let lastLog = prev ! (length prev - 1);
             needsSpace = (length (msg_text lastLog) > 0 \<and> \<not> endsWith (msg_text lastLog) '' ''
                           \<and> \<not> startsWith t '' '');
             updatedText = msg_text lastLog @ (if needsSpace then '' '' else '''') @ t
         in take (length prev - 1) prev @ [lastLog\<lparr>msg_text := updatedText\<rparr>])
      else prev @ [\<lparr>role = r, msg_text = t, timestamp = now\<rparr>])"

text \<open>A sequence of events \<open>(role, text, Date.now())\<close>, each applied to the log the one before left.\<close>

fun feedEvents :: "LogMessage list \<Rightarrow> (role \<times> string \<times> nat) list \<Rightarrow> LogMessage list" where
  "feedEvents prev [] = prev"
| "feedEvents prev ((r, t, now) # evs) = feedEvents (handleStreamingLog prev r t now) evs"


section \<open>Sample codec (utils/audioUtils.ts)\<close>

subsection \<open>Numbers\<close>

text \<open>
  A JavaScript number is a finite value, an infinity or NaN. The finite values are
  modelled by the reals they denote (the sign of zero is not kept). The only arithmetic
  \<^verbatim>\<open>float32ToInt16\<close> does on a sample is to clip it and to multiply the clipped value by
  \<open>0x8000\<close> or \<open>0x7fff\<close>; for a 32-bit float sample, which has 24 significant bits, both
  products have at most 39 significant bits and are exact in double precision, so exact
  real arithmetic is what the code computes.
\<close>

datatype jsnum = Num real | PosInf | NegInf | NaN

fun math_min :: "jsnum \<Rightarrow> jsnum \<Rightarrow> jsnum" where
  "math_min NaN _ = NaN"
| "math_min _ NaN = NaN"
| "math_min NegInf _ = NegInf"
| "math_min _ NegInf = NegInf"
| "math_min PosInf y = y"
| "math_min x PosInf = x"
| "math_min (Num a) (Num b) = Num (min a b)"

fun math_max :: "jsnum \<Rightarrow> jsnum \<Rightarrow> jsnum" where
  "math_max NaN _ = NaN"
| "math_max _ NaN = NaN"
| "math_max PosInf _ = PosInf"
| "math_max _ PosInf = PosInf"
| "math_max NegInf y = y"
| "math_max x NegInf = x"
| "math_max (Num a) (Num b) = Num (max a b)"

text \<open>The comparison \<open>s < 0\<close>: false when \<open>s\<close> is NaN.\<close>

fun js_less :: "jsnum \<Rightarrow> jsnum \<Rightarrow> bool" where
  "js_less NaN _ = False"
| "js_less _ NaN = False"
| "js_less (Num a) (Num b) = (a < b)"
| "js_less NegInf NegInf = False"
| "js_less NegInf _ = True"
| "js_less _ NegInf = False"
| "js_less PosInf _ = False"
| "js_less _ PosInf = True"

fun js_times :: "jsnum \<Rightarrow> jsnum \<Rightarrow> jsnum" where
  "js_times NaN _ = NaN"
| "js_times _ NaN = NaN"
| "js_times (Num a) (Num b) = Num (a * b)"
| "js_times (Num a) PosInf = (if a = 0 then NaN else if 0 < a then PosInf else NegInf)"
| "js_times (Num a) NegInf = (if a = 0 then NaN else if 0 < a then NegInf else PosInf)"
| "js_times PosInf (Num b) = (if b = 0 then NaN else if 0 < b then PosInf else NegInf)"
| "js_times NegInf (Num b) = (if b = 0 then NaN else if 0 < b then NegInf else PosInf)"
| "js_times PosInf PosInf = PosInf"
| "js_times PosInf NegInf = NegInf"
| "js_times NegInf PosInf = NegInf"
| "js_times NegInf NegInf = PosInf"

text \<open>
  Storing a number into an \<^verbatim>\<open>Int16Array\<close> applies the language's ToInt16: NaN and the
  infinities become 0, a finite value is truncated towards zero, reduced modulo \<open>2^16\<close>
  and read as two's complement.
\<close>

definition trunc :: "real \<Rightarrow> int" where
  "trunc x = (if x < 0 then - \<lfloor>- x\<rfloor> else \<lfloor>x\<rfloor>)"

fun toInt16 :: "jsnum \<Rightarrow> int" where
  "toInt16 (Num x) =
     (let int16bit = trunc x mod 65536
      in if int16bit \<ge> 32768 then int16bit - 65536 else int16bit)"
| "toInt16 _ = 0"

subsection \<open>float32ToInt16\<close>

text \<open>
  \<^verbatim>\<open>
  for (let i = 0; i < float32Array.length; i++) {
    const s = Math.max(-1, Math.min(1, float32Array[i]));
    int16Array[i] = s < 0 ? s * 0x8000 : s * 0x7fff;
  }
  \<close>
  The loop writes every index of a fresh array of the same length once: a map.
\<close>

definition float32ToInt16_sample :: "jsnum \<Rightarrow> int" where
  "float32ToInt16_sample x =
     (let s = math_max (Num (- 1)) (math_min (Num 1) x)
      in toInt16 (if js_less s (Num 0) then js_times s (Num 32768) else js_times s (Num 32767)))"

definition float32ToInt16 :: "jsnum list \<Rightarrow> int list" where
  "float32ToInt16 float32Array = map float32ToInt16_sample float32Array"

subsection \<open>Transport encoding: arrayBufferToBase64 and base64ToUint8Array\<close>

type_synonym byte = "8 word"

datatype js_error =
    InvalidCharacterError
  | RangeError
  | NotSupportedError
  | Rejection string

text \<open>
  \<^verbatim>\<open>btoa\<close> and \<^verbatim>\<open>atob\<close> are functions of the browser, not of the repository. They are
  modelled after the HTML standard: \<^verbatim>\<open>btoa\<close> throws if a code unit exceeds 255 and
  otherwise base64-encodes the bytes (RFC 4648 alphabet, padded with \<open>=\<close>); \<^verbatim>\<open>atob\<close> is
  the standard's forgiving decoder (ASCII whitespace removed, optional padding, failure on
  a length of \<open>1 mod 4\<close> or a character outside the alphabet, surplus bits dropped).
  A binary string is the list of its code units; base64 text is a \<open>string\<close>.
\<close>

definition b64char :: "nat \<Rightarrow> char" where
  "b64char n =
     (if n < 26 then char_of (65 + n)
      else if n < 52 then char_of (71 + n)
      else if n < 62 then char_of (n - 4)
      else if n = 62 then CHR ''+'' else CHR ''/'')"

definition b64index :: "char \<Rightarrow> nat option" where
  "b64index c =
     (let k = (of_char c :: nat)
      in if 65 \<le> k \<and> k \<le> 90 then Some (k - 65)
         else if 97 \<le> k \<and> k \<le> 122 then Some (k - 71)
         else if 48 \<le> k \<and> k \<le> 57 then Some (k + 4)
         else if c = CHR ''+'' then Some 62
         else if c = CHR ''/'' then Some 63
         else None)"

fun b64encode :: "nat list \<Rightarrow> string" where
  "b64encode (a # b # c # rest) =
     [b64char (a div 4), b64char ((a mod 4) * 16 + b div 16),
      b64char ((b mod 16) * 4 + c div 64), b64char (c mod 64)] @ b64encode rest"
| "b64encode [a, b] =
     [b64char (a div 4), b64char ((a mod 4) * 16 + b div 16),
      b64char ((b mod 16) * 4), CHR ''='']"
| "b64encode [a] = [b64char (a div 4), b64char ((a mod 4) * 16), CHR ''='', CHR ''='']"
| "b64encode [] = []"

definition btoa :: "nat list \<Rightarrow> js_error + string" where
  "btoa data = (if list_ex (\<lambda>u. u > 255) data then Inl InvalidCharacterError
                else Inr (b64encode data))"

definition isAsciiWhitespace :: "char \<Rightarrow> bool" where
  "isAsciiWhitespace c = ((of_char c :: nat) \<in> {9, 10, 12, 13, 32})"

definition stripPadding :: "string \<Rightarrow> string" where
  "stripPadding d =
     (if endsWith d ''=='' then take (length d - 2) d
      else if endsWith d ''='' then take (length d - 1) d
      else d)"

fun b64decode :: "nat list \<Rightarrow> nat list" where
  "b64decode (a # b # c # d # rest) =
     [a * 4 + b div 16, (b mod 16) * 16 + c div 4, (c mod 4) * 64 + d] @ b64decode rest"
| "b64decode [a, b, c] = [a * 4 + b div 16, (b mod 16) * 16 + c div 4]"
| "b64decode [a, b] = [a * 4 + b div 16]"
| "b64decode _ = []"

definition atob :: "string \<Rightarrow> js_error + nat list" where
  "atob data =
     (let d1 = filter (\<lambda>c. \<not> isAsciiWhitespace c) data;
          d2 = (if length d1 mod 4 = 0 then stripPadding d1 else d1)
      in if length d2 mod 4 = 1 then Inl InvalidCharacterError
         else if list_ex (\<lambda>c. b64index c = None) d2 then Inl InvalidCharacterError
         else Inr (b64decode (map (\<lambda>c. the (b64index c)) d2)))"

text \<open>
  \<^verbatim>\<open>
  for (let i = 0; i < len; i++) binary += String.fromCharCode(bytes[i]);
  return btoa(binary);
  \<close>
\<close>

definition arrayBufferToBase64 :: "byte list \<Rightarrow> js_error + string" where
  "arrayBufferToBase64 buffer = btoa (map unat buffer)"

text \<open>
  \<^verbatim>\<open>
  const binaryString = atob(base64);
  for (let i = 0; i < len; i++) bytes[i] = binaryString.charCodeAt(i);
  \<close>
  The store into the \<^verbatim>\<open>Uint8Array\<close> reduces modulo 256, which \<open>of_nat\<close> does.
\<close>

definition base64ToUint8Array :: "string \<Rightarrow> js_error + byte list" where
  "base64ToUint8Array base64 =
     (case atob base64 of
        Inl e \<Rightarrow> Inl e
      | Inr binaryString \<Rightarrow> Inr (map of_nat binaryString))"

subsection \<open>pcmToAudioBuffer\<close>

text \<open>
  \<^verbatim>\<open>new Int16Array(pcmData.buffer)\<close> throws a RangeError when the byte length is odd and
  reads the bytes in pairs, low byte first; \<^verbatim>\<open>createBuffer\<close> throws a NotSupportedError
  for a length of zero. The duration of an \<^verbatim>\<open>AudioBuffer\<close> is its length divided by its
  sample rate.
\<close>

record AudioBuffer =
  channelData :: "real list"
  sampleRate :: nat

definition duration :: "AudioBuffer \<Rightarrow> real" where
  "duration b = real (length (channelData b)) / real (sampleRate b)"

fun int16Array :: "byte list \<Rightarrow> int list" where
  "int16Array (lo # hi # rest) = sint (word_of_nat (unat lo + 256 * unat hi) :: 16 word) # int16Array rest"
| "int16Array _ = []"

definition pcmToAudioBuffer :: "byte list \<Rightarrow> nat \<Rightarrow> js_error + AudioBuffer" where
  "pcmToAudioBuffer pcmData rate =
     (if odd (length pcmData) then Inl RangeError
      else (let float32Array = map (\<lambda>i. real_of_int i / 32768) (int16Array pcmData)
            in if length float32Array = 0 then Inl NotSupportedError
               else Inr \<lparr>channelData = float32Array, sampleRate = rate\<rparr>))"

text \<open>The bytes behind an \<^verbatim>\<open>Int16Array\<close> (\<^verbatim>\<open>pcmInt16.buffer\<close>), low byte first.\<close>

definition int16ArrayBuffer :: "int list \<Rightarrow> byte list" where
  "int16ArrayBuffer xs = concat (map (\<lambda>n. [word_of_int n, word_of_int (n div 256)]) xs)"


section \<open>The session (InterviewSession)\<close>

subsection \<open>State\<close>

text \<open>
  The component's \<^verbatim>\<open>useState\<close> cells and \<^verbatim>\<open>useRef\<close> cells are the fields of one record.
  A \<^verbatim>\<open>null\<close> ref is \<open>None\<close>. What the component does to the world outside (the remote
  service, the audio devices, the host's \<^verbatim>\<open>onComplete\<close>) is appended to \<open>effects\<close>, in
  order. Times of the audio device are taken as reals.

  A state cell changes when the component renders, not when its setter is called:
  \<open>status\<close> is the value the last render saw (the one the interface shows),
  \<open>pendingStatus\<close> the value queued by \<^verbatim>\<open>setStatus\<close> since then (the last call wins), and
  \<open>statusHistory\<close> lists the values the renders have shown, oldest first. The updaters given
  to \<^verbatim>\<open>setLogs\<close> are applied in the order queued, each to the result of the one before, so
  the log is modelled as updated at once; so is the mute flag, which one click toggles.
\<close>

datatype status = Idle | Connecting | Connected | Error | Finished

datatype InterviewMode = VOICE | TEXT

datatype AudioContextState = Suspended | Running | Closed

text \<open>
  The promise \<^verbatim>\<open>ai.live.connect\<close> returned, by the way it settles: with a session (the flag
  says whether \<^verbatim>\<open>typeof session.close === 'function'\<close>) or with a rejection.
\<close>

datatype promise = Resolved bool | Rejected string

record GeminiLiveService =
  sessionPromise :: "promise option"

text \<open>
  The \<^verbatim>\<open>ScriptProcessorNode\<close> with the \<^verbatim>\<open>onaudioprocess\<close> function assigned to it. The function
  reads \<^verbatim>\<open>statusRef.current\<close> through the ref, and \<^verbatim>\<open>isMuted\<close> as the constant of the render in
  which the function was created: that value is stored with the node.
\<close>

record ScriptProcessorNode =
  closure_isMuted :: bool

datatype effect =
    TransportConnect
  | TransportSend string
  | TransportClose
  | ChatStart
  | ProcessorDisconnect
  | TrackStop nat
  | ContextClose
  | SourceStart nat real real
  | SourceStop nat
  | OnComplete string

record session =
  status :: status
  pendingStatus :: "status option"
  statusHistory :: "status list"
  statusRef :: status
  logs :: "LogMessage list"
  logsRef :: "LogMessage list"
  isMuted :: bool
  audioContextRef :: "AudioContextState option"
  audioStreamRef :: "nat list option"
  processorRef :: "ScriptProcessorNode option"
  bufferSourceRef :: "nat list"
  sourcesCreated :: nat
  liveServiceRef :: "GeminiLiveService option"
  chatServiceRef :: bool
  nextStartTimeRef :: real
  effects :: "effect list"

definition initialSession :: session where
  "initialSession =
     \<lparr>status = Idle, pendingStatus = None, statusHistory = [Idle], statusRef = Idle,
      logs = [], logsRef = [], isMuted = False,
      audioContextRef = None, audioStreamRef = None, processorRef = None,
      bufferSourceRef = [], sourcesCreated = 0, liveServiceRef = None,
      chatServiceRef = False, nextStartTimeRef = 0, effects = []\<rparr>"

definition setStatus :: "status \<Rightarrow> session \<Rightarrow> session" where
  "setStatus st s = s\<lparr>pendingStatus := Some st\<rparr>"

text \<open>
  A render: the queued status, if there is one, becomes the status, and the effect
  \<^verbatim>\<open>useEffect(() => { statusRef.current = status; }, [status])\<close> copies the status into the
  ref. A status equal to the one shown is not a new entry of the history.
\<close>

definition render :: "session \<Rightarrow> session" where
  "render s =
     (case pendingStatus s of
        None \<Rightarrow> s\<lparr>statusRef := status s\<rparr>
      | Some st \<Rightarrow>
          s\<lparr>status := st, pendingStatus := None, statusRef := st,
            statusHistory := (if st = status s then statusHistory s else statusHistory s @ [st])\<rparr>)"

text \<open>\<^verbatim>\<open>setIsMuted(!isMuted)\<close>, the mute button.\<close>

definition toggleMute :: "session \<Rightarrow> session" where
  "toggleMute s = s\<lparr>isMuted := \<not> isMuted s\<rparr>"

text \<open>\<^verbatim>\<open>handleStreamingLog\<close> on the session: the updater stores the new list in both cells.\<close>

definition streamingLog :: "role \<Rightarrow> string \<Rightarrow> nat \<Rightarrow> session \<Rightarrow> session" where
  "streamingLog r t now s =
     (let newLogs = handleStreamingLog (logs s) r t now
      in s\<lparr>logs := newLogs, logsRef := newLogs\<rparr>)"

subsection \<open>Starting\<close>

text \<open>
  What the environment answers during a start: the variable \<^verbatim>\<open>process.env.API_KEY\<close>
  (\<open>None\<close> when undefined), the interview mode of the configuration, the result of
  \<^verbatim>\<open>getUserMedia\<close> (an error text, or the ids of the stream's tracks), how the connect
  promise settles, the result of the chat service's \<^verbatim>\<open>start\<close> (an error text, or the
  text of the first response, empty when there is none), and the two readings of
  \<^verbatim>\<open>Date.now()\<close> a start can make. While a start function waits at an \<^verbatim>\<open>await\<close>, the
  component renders what is queued.
\<close>

record world =
  API_KEY :: "string option"
  mode :: InterviewMode
  getUserMedia :: "string + nat list"
  liveConnect :: promise
  chatStart :: "string + string"
  now1 :: nat
  now2 :: nat

text \<open>
  \<^verbatim>\<open>
  try {
    chatServiceRef.current = new GeminiChatService(config);
    await chatServiceRef.current.start((initialMsg) => { handleStreamingLog('model', initialMsg); });
    setStatus('connected');
  } catch (err) { setStatus('error'); handleStreamingLog('system', `Error: ${err}`); }
  \<close>
\<close>

definition startTextSession :: "world \<Rightarrow> session \<Rightarrow> session" where
  "startTextSession w s =
     (let s1 = render (s\<lparr>chatServiceRef := True, effects := effects s @ [ChatStart]\<rparr>)
      in case chatStart w of
           Inl err \<Rightarrow> streamingLog System (''Error: '' @ err) (now1 w) (setStatus Error s1)
         | Inr initialMsg \<Rightarrow>
             setStatus Connected
               (if initialMsg \<noteq> [] then streamingLog Model initialMsg (now1 w) s1 else s1))"

text \<open>
  \<^verbatim>\<open>startVoiceSession\<close>, with the callbacks it registers left to the functions below.
  Every failure inside is caught: status \<open>error\<close>, then a system entry.
  \<^verbatim>\<open>
  try {
    liveServiceRef.current = new GeminiLiveService(config);
    audioContextRef.current = new AudioContextClass({ sampleRate: 24000 });
    handleStreamingLog('system', 'Connecting to Gemini Live...');
    const stream = await navigator.mediaDevices.getUserMedia({ audio: true });
    audioStreamRef.current = stream;
    await liveServiceRef.current.connect(onAudioData, onTranscript, onClose);
    setStatus('connected');
    handleStreamingLog('system', 'Connected. Listening...');
    const processor = inputCtx.createScriptProcessor(4096, 1, 1);
    processorRef.current = processor;
    processor.onaudioprocess = (e) => { ... };
  } catch (err) { setStatus('error'); handleStreamingLog('system', `Error: ${err}`); }
  \<close>
\<close>

definition startVoiceSession :: "world \<Rightarrow> session \<Rightarrow> session" where
  "startVoiceSession w s =
     (let s1 = s\<lparr>liveServiceRef := Some \<lparr>sessionPromise = None\<rparr>\<rparr>;
          s2 = s1\<lparr>audioContextRef := Some Running\<rparr>;
          s3 = render (streamingLog System ''Connecting to Gemini Live...'' (now1 w) s2)
      in case getUserMedia w of
           Inl err \<Rightarrow> streamingLog System (''Error: '' @ err) (now2 w) (setStatus Error s3)
         | Inr tracks \<Rightarrow>
             (let s4 = s3\<lparr>audioStreamRef := Some tracks\<rparr>;
                  s5 = render (s4\<lparr>liveServiceRef := Some \<lparr>sessionPromise = Some (liveConnect w)\<rparr>,
                                  effects := effects s4 @ [TransportConnect]\<rparr>)
              in case liveConnect w of
                   Rejected err \<Rightarrow>
                     streamingLog System (''Error: '' @ err) (now2 w) (setStatus Error s5)
                 | Resolved c \<Rightarrow>
                     (let s6 = streamingLog System ''Connected. Listening...'' (now2 w)
                                 (setStatus Connected s5)
                      in s6\<lparr>processorRef := Some \<lparr>closure_isMuted = isMuted s\<rparr>\<rparr>)))"

text \<open>
  \<^verbatim>\<open>
  setStatus('connecting');
  const apiKey = process.env.API_KEY || '';
  if (!apiKey) { handleStreamingLog('system', 'API Key missing'); setStatus('error'); return; }
  if (config.mode === InterviewMode.VOICE) await startVoiceSession(); else await startTextSession();
  \<close>
\<close>

definition handleStart :: "world \<Rightarrow> session \<Rightarrow> session" where
  "handleStart w s =
     (let s1 = setStatus Connecting s;
          apiKey = (case API_KEY w of None \<Rightarrow> [] | Some k \<Rightarrow> k)
      in if apiKey = [] then setStatus Error (streamingLog System ''API Key missing'' (now1 w) s1)
         else if mode w = VOICE then startVoiceSession w s1
         else startTextSession w s1)"

text \<open>The calls that reach the remote service.\<close>

definition isTransportCall :: "effect \<Rightarrow> bool" where
  "isTransportCall e =
     (case e of TransportConnect \<Rightarrow> True | TransportSend _ \<Rightarrow> True | TransportClose \<Rightarrow> True
      | ChatStart \<Rightarrow> True | _ \<Rightarrow> False)"

subsection \<open>Playback scheduler: the audio callback\<close>

text \<open>
  \<^verbatim>\<open>
  if (!audioContextRef.current || audioContextRef.current.state === 'closed') return;
  const rawBytes = base64ToUint8Array(base64Audio);
  const buffer = pcmToAudioBuffer(rawBytes, ctx);
  const source = ctx.createBufferSource();
  bufferSourceRef.current.add(source);
  const currentTime = ctx.currentTime;
  const startTime = Math.max(currentTime, nextStartTimeRef.current);
  source.start(startTime);
  nextStartTimeRef.current = startTime + buffer.duration;
  \<close>
  The device time \<open>ctx.currentTime\<close> is an argument. A source node is named by the number of
  nodes created before it. The decoding steps throw before anything is written, so an
  error leaves the session as it was. The lines from \<^verbatim>\<open>createBufferSource\<close> on are
  \<open>schedulePlayback\<close>.
\<close>

definition schedulePlayback :: "session \<Rightarrow> real \<Rightarrow> AudioBuffer \<Rightarrow> session" where
  "schedulePlayback s currentTime buffer =
     (let source = sourcesCreated s;
          startTime = max currentTime (nextStartTimeRef s)
      in s\<lparr>bufferSourceRef := bufferSourceRef s @ [source],
           sourcesCreated := Suc (sourcesCreated s),
           nextStartTimeRef := startTime + duration buffer,
           effects := effects s @ [SourceStart source startTime (duration buffer)]\<rparr>)"

definition onAudioData :: "session \<Rightarrow> real \<Rightarrow> string \<Rightarrow> js_error + session" where
  "onAudioData s currentTime base64Audio =
     (if audioContextRef s = None \<or> audioContextRef s = Some Closed then Inr s
      else case base64ToUint8Array base64Audio of
             Inl e \<Rightarrow> Inl e
           | Inr rawBytes \<Rightarrow>
               (case pcmToAudioBuffer rawBytes 24000 of
                  Inl e \<Rightarrow> Inl e
                | Inr buffer \<Rightarrow> Inr (schedulePlayback s currentTime buffer)))"

text \<open>\<^verbatim>\<open>source.onended = () => { bufferSourceRef.current.delete(source); }\<close>\<close>

definition onended :: "nat \<Rightarrow> session \<Rightarrow> session" where
  "onended source s = s\<lparr>bufferSourceRef := removeAll source (bufferSourceRef s)\<rparr>"

text \<open>
  Fragments arriving one after the other, each with the device time at its arrival. A
  callback that throws has changed nothing.
\<close>

fun arrivals :: "session \<Rightarrow> (real \<times> string) list \<Rightarrow> session" where
  "arrivals s [] = s"
| "arrivals s ((currentTime, base64Audio) # rest) =
     arrivals (case onAudioData s currentTime base64Audio of Inl e \<Rightarrow> s | Inr s' \<Rightarrow> s') rest"

text \<open>The playbacks started, in order: start time and duration of each.\<close>

fun scheduled :: "effect list \<Rightarrow> (real \<times> real) list" where
  "scheduled [] = []"
| "scheduled (SourceStart i st d # es) = (st, d) # scheduled es"
| "scheduled (e # es) = scheduled es"

text \<open>No playback starts before the one scheduled before it has ended.\<close>

fun nonOverlapping :: "(real \<times> real) list \<Rightarrow> bool" where
  "nonOverlapping ((st, d) # (st', d') # rest) = (st + d \<le> st' \<and> nonOverlapping ((st', d') # rest))"
| "nonOverlapping _ = True"

subsection \<open>Capture pipeline: the microphone callback\<close>

text \<open>
  \<^verbatim>\<open>
  sendAudioChunk(base64Audio) {
    if (this.sessionPromise) {
      this.sessionPromise.then((session) => { session.sendRealtimeInput(...) }).catch(...);
    }
  }
  \<close>
\<close>

definition sendAudioChunk :: "GeminiLiveService \<Rightarrow> string \<Rightarrow> session \<Rightarrow> session" where
  "sendAudioChunk svc base64Audio s =
     (case sessionPromise svc of
        Some (Resolved c) \<Rightarrow> s\<lparr>effects := effects s @ [TransportSend base64Audio]\<rparr>
      | _ \<Rightarrow> s)"

text \<open>
  \<^verbatim>\<open>
  processor.onaudioprocess = (e) => {
    if (isMuted || statusRef.current !== 'connected') return;
    const inputData = e.inputBuffer.getChannelData(0);
    const pcmInt16 = float32ToInt16(inputData);
    const base64Data = arrayBufferToBase64(pcmInt16.buffer);
    liveServiceRef.current?.sendAudioChunk(base64Data);
  };
  \<close>
\<close>

definition onaudioprocess :: "ScriptProcessorNode \<Rightarrow> jsnum list \<Rightarrow> session \<Rightarrow> js_error + session" where
  "onaudioprocess node inputData s =
     (if closure_isMuted node \<or> statusRef s \<noteq> Connected then Inr s
      else (let pcmInt16 = float32ToInt16 inputData
            in case arrayBufferToBase64 (int16ArrayBuffer pcmInt16) of
                 Inl e \<Rightarrow> Inl e
               | Inr base64Data \<Rightarrow>
                   (case liveServiceRef s of
                      None \<Rightarrow> Inr s
                    | Some svc \<Rightarrow> Inr (sendAudioChunk svc base64Data s))))"

subsection \<open>Teardown and finish\<close>

text \<open>
  \<^verbatim>\<open>
  async disconnect() {
    if (this.sessionPromise) {
      const session = await this.sessionPromise;
      if (session && typeof session.close === 'function') session.close();
      this.sessionPromise = null;
    }
  }
  \<close>
  Awaiting a rejected promise throws the rejection.
\<close>

definition disconnect :: "GeminiLiveService \<Rightarrow> js_error + GeminiLiveService \<times> effect list" where
  "disconnect svc =
     (case sessionPromise svc of
        None \<Rightarrow> Inr (svc, [])
      | Some (Rejected err) \<Rightarrow> Inl (Rejection err)
      | Some (Resolved c) \<Rightarrow>
          Inr (svc\<lparr>sessionPromise := None\<rparr>, if c then [TransportClose] else []))"

text \<open>
  \<^verbatim>\<open>
  if (liveServiceRef.current) await liveServiceRef.current.disconnect();
  if (processorRef.current) { processorRef.current.disconnect(); processorRef.current = null; }
  if (audioStreamRef.current) {
    audioStreamRef.current.getTracks().forEach(track => track.stop()); audioStreamRef.current = null; }
  if (audioContextRef.current && audioContextRef.current.state !== 'closed') {
    try { await audioContextRef.current.close(); } catch (e) { console.warn(...) }
    audioContextRef.current = null; }
  bufferSourceRef.current.forEach(source => { try { source.stop(); } catch(e) {} });
  bufferSourceRef.current.clear();
  \<close>
  The first step is the only one that can throw, and it throws before anything is
  written: an error leaves the session as it was. The steps after it are \<open>teardownLocal\<close>.
\<close>

definition teardownLocal :: "session \<Rightarrow> session" where
  "teardownLocal s =
     (let s2 = (case processorRef s of
                  None \<Rightarrow> s
                | Some node \<Rightarrow> s\<lparr>processorRef := None, effects := effects s @ [ProcessorDisconnect]\<rparr>);
          s3 = (case audioStreamRef s2 of
                  None \<Rightarrow> s2
                | Some tracks \<Rightarrow> s2\<lparr>audioStreamRef := None, effects := effects s2 @ map TrackStop tracks\<rparr>);
          s4 = (if audioContextRef s3 \<noteq> None \<and> audioContextRef s3 \<noteq> Some Closed
                then s3\<lparr>audioContextRef := None, effects := effects s3 @ [ContextClose]\<rparr>
                else s3)
      in s4\<lparr>bufferSourceRef := [], effects := effects s4 @ map SourceStop (bufferSourceRef s4)\<rparr>)"

definition handleDisconnect :: "session \<Rightarrow> js_error + session" where
  "handleDisconnect s =
     (case liveServiceRef s of
        None \<Rightarrow> Inr (teardownLocal s)
      | Some svc \<Rightarrow>
          (case disconnect svc of
             Inl e \<Rightarrow> Inl e
           | Inr (svc', es) \<Rightarrow>
               Inr (teardownLocal (s\<lparr>liveServiceRef := Some svc', effects := effects s @ es\<rparr>))))"

text \<open>\<^verbatim>\<open>String.prototype.toUpperCase\<close> on ASCII text, and \<^verbatim>\<open>Array.prototype.join\<close>.\<close>

definition toUpperCase :: "string \<Rightarrow> string" where
  "toUpperCase s =
     map (\<lambda>c. if 97 \<le> (of_char c :: nat) \<and> (of_char c :: nat) \<le> 122
               then char_of ((of_char c :: nat) - 32) else c) s"

fun join :: "string \<Rightarrow> string list \<Rightarrow> string" where
  "join sep [] = []"
| "join sep [x] = x"
| "join sep (x # y # rest) = x @ sep @ join sep (y # rest)"

definition roleName :: "role \<Rightarrow> string" where
  "roleName r = (case r of User \<Rightarrow> ''user'' | Model \<Rightarrow> ''model'' | System \<Rightarrow> ''system'')"

text \<open>
  \<^verbatim>\<open>
  await handleDisconnect();
  setStatus('finished');
  const fullTranscript = logsRef.current
      .filter(l => l.role !== 'system')
      .map(l => `${l.role.toUpperCase()}: ${l.text}`)
      .join('\n');
  onComplete(fullTranscript);
  \<close>
\<close>

definition fullTranscript :: "LogMessage list \<Rightarrow> string" where
  "fullTranscript ls =
     join [CHR 0x0A]
       (map (\<lambda>l. toUpperCase (roleName (role l)) @ '': '' @ msg_text l)
          (filter (\<lambda>l. role l \<noteq> System) ls))"

definition handleFinish :: "session \<Rightarrow> js_error + session" where
  "handleFinish s =
     (case handleDisconnect s of
        Inl e \<Rightarrow> Inl e
      | Inr s1 \<Rightarrow>
          (let s2 = setStatus Finished s1
           in Inr (s2\<lparr>effects := effects s2 @ [OnComplete (fullTranscript (logsRef s2))]\<rparr>)))"

text \<open>
  Whether the connect promise the live service holds was rejected (the connection to the
  remote service failed).
\<close>

definition connectRejected :: "session \<Rightarrow> bool" where
  "connectRejected s =
     (case liveServiceRef s of
        None \<Rightarrow> False
      | Some svc \<Rightarrow> (case sessionPromise svc of Some (Rejected err) \<Rightarrow> True | _ \<Rightarrow> False))"

subsection \<open>The final transcript in the words of the specification\<close>

text \<open>
  For comparison with \<open>fullTranscript\<close>: the log without its system entries, each message
  as its role in capitals, a colon, a space and the text, with a newline between one
  message and the next, in the order of the log.
\<close>

definition spec_render :: "LogMessage \<Rightarrow> string" where
  "spec_render m =
     (case role m of User \<Rightarrow> ''USER'' | Model \<Rightarrow> ''MODEL'' | System \<Rightarrow> ''SYSTEM'')
     @ '': '' @ msg_text m"

fun spec_finalTranscriptText :: "LogMessage list \<Rightarrow> string" where
  "spec_finalTranscriptText [] = []"
| "spec_finalTranscriptText (m # ms) =
     (if role m = System then spec_finalTranscriptText ms
      else if list_all (\<lambda>m'. role m' = System) ms then spec_render m
      else spec_render m @ [CHR 0x0A] @ spec_finalTranscriptText ms)"


section \<open>Properties of the transcript assembler\<close>

lemma endsWith_space: "endsWith x '' '' = (x \<noteq> [] \<and> last x = CHR '' '')"
  by (cases x rule: rev_cases) (auto simp: endsWith_def)

lemma startsWith_space: "startsWith t '' '' = (t \<noteq> [] \<and> hd t = CHR '' '')"
  by (cases t) (auto simp: startsWith_def)

text \<open>The two branches of the updater, on a log split into its last message and the rest.\<close>

lemma handleStreamingLog_merge:
  assumes "role m = r" "r \<noteq> System"
  shows "handleStreamingLog (ps @ [m]) r t now =
         ps @ [m\<lparr>msg_text := msg_text m @
                  (if msg_text m \<noteq> [] \<and> last (msg_text m) \<noteq> CHR '' '' \<and> (t = [] \<or> hd t \<noteq> CHR '' '')
                   then '' '' else []) @ t\<rparr>]"
  using assms
  by (auto simp: handleStreamingLog_def Let_def endsWith_space startsWith_space nth_append)

lemma handleStreamingLog_append:
  assumes "prev = [] \<or> role (last prev) \<noteq> r \<or> r = System"
  shows "handleStreamingLog prev r t now = prev @ [\<lparr>role = r, msg_text = t, timestamp = now\<rparr>]"
  using assms by (cases prev rule: rev_cases) (auto simp: handleStreamingLog_def nth_append)

text \<open>
  Claim C2, as the code has it. From an empty log, the events (user, "Hel"), (user, "lo"),
  (model, "Hi") give the two messages user "Hel lo" and model "Hi": neither "Hel" ends
  nor "lo" starts with a space, so the assembler puts one space between them. The events
  (user, "Hi "), (user, "there") give the single message user "Hi there", with no second
  space. The merged message keeps the timestamp of its first fragment.
\<close>

theorem feedEvents_examples:
  "feedEvents [] [(User, ''Hel'', t1), (User, ''lo'', t2), (Model, ''Hi'', t3)] =
     [\<lparr>role = User, msg_text = ''Hel lo'', timestamp = t1\<rparr>,
      \<lparr>role = Model, msg_text = ''Hi'', timestamp = t3\<rparr>]
   \<and> feedEvents [] [(User, ''Hi '', t1), (User, ''there'', t2)] =
     [\<lparr>role = User, msg_text = ''Hi there'', timestamp = t1\<rparr>]"
  by (simp add: handleStreamingLog_def endsWith_def startsWith_def)

text \<open>
  Claim C2 as the specification states it fails: the texts of the messages after
  (user, "Hel"), (user, "lo"), (model, "Hi") are not "Hello" and "Hi".
\<close>

theorem feedEvents_Hello_counterexample:
  "map (\<lambda>m. (role m, msg_text m))
     (feedEvents [] [(User, ''Hel'', 0), (User, ''lo'', 1), (Model, ''Hi'', 2)])
   \<noteq> [(User, ''Hello''), (Model, ''Hi'')]"
  by (simp add: handleStreamingLog_def endsWith_def startsWith_def)

text \<open>
  Claim C3, as the code has it. An event (role, text) is merged into the last message
  exactly when the log is not empty, the last message has the same role and the role is
  not system. The merged text is the old text, then one space exactly when the old text is
  not empty, does not end with the space character and the fragment does not start with
  the space character, then the fragment. Otherwise a new message with the timestamp read
  at the event is appended. Two system events in a row give two messages.
\<close>

theorem handleStreamingLog_rule:
  "(prev \<noteq> [] \<and> role (last prev) = r \<and> r \<noteq> System \<longrightarrow>
      handleStreamingLog prev r t now =
        butlast prev @
        [(last prev)\<lparr>msg_text := msg_text (last prev) @
            (if msg_text (last prev) \<noteq> [] \<and> last (msg_text (last prev)) \<noteq> CHR '' ''
                \<and> (t = [] \<or> hd t \<noteq> CHR '' '')
             then '' '' else []) @ t\<rparr>])
   \<and> (\<not> (prev \<noteq> [] \<and> role (last prev) = r \<and> r \<noteq> System) \<longrightarrow>
      handleStreamingLog prev r t now = prev @ [\<lparr>role = r, msg_text = t, timestamp = now\<rparr>])
   \<and> handleStreamingLog (handleStreamingLog prev System a n1) System b n2 =
        prev @ [\<lparr>role = System, msg_text = a, timestamp = n1\<rparr>,
                \<lparr>role = System, msg_text = b, timestamp = n2\<rparr>]"
proof (intro conjI impI)
  assume a: "prev \<noteq> [] \<and> role (last prev) = r \<and> r \<noteq> System"
  then have p: "prev = butlast prev @ [last prev]" by simp
  show "handleStreamingLog prev r t now =
        butlast prev @
        [(last prev)\<lparr>msg_text := msg_text (last prev) @
            (if msg_text (last prev) \<noteq> [] \<and> last (msg_text (last prev)) \<noteq> CHR '' ''
                \<and> (t = [] \<or> hd t \<noteq> CHR '' '')
             then '' '' else []) @ t\<rparr>]"
    using handleStreamingLog_merge [of "last prev" r "butlast prev" t now] a p by simp
next
  assume "\<not> (prev \<noteq> [] \<and> role (last prev) = r \<and> r \<noteq> System)"
  then show "handleStreamingLog prev r t now = prev @ [\<lparr>role = r, msg_text = t, timestamp = now\<rparr>]"
    by (intro handleStreamingLog_append) blast
next
  show "handleStreamingLog (handleStreamingLog prev System a n1) System b n2 =
        prev @ [\<lparr>role = System, msg_text = a, timestamp = n1\<rparr>,
                \<lparr>role = System, msg_text = b, timestamp = n2\<rparr>]"
    by (simp add: handleStreamingLog_append)
qed

theorem handleStreamingLog_rule_witness:
  "handleStreamingLog [\<lparr>role = User, msg_text = ''Hi'', timestamp = 7\<rparr>] User ''there'' 9 =
     [\<lparr>role = User, msg_text = ''Hi there'', timestamp = 7\<rparr>]
   \<and> handleStreamingLog [\<lparr>role = User, msg_text = ''Hi'', timestamp = 7\<rparr>] Model ''there'' 9 =
     [\<lparr>role = User, msg_text = ''Hi'', timestamp = 7\<rparr>,
      \<lparr>role = Model, msg_text = ''there'', timestamp = 9\<rparr>]
   \<and> handleStreamingLog (handleStreamingLog [] System ''A'' 1) System ''B'' 2 =
     [\<lparr>role = System, msg_text = ''A'', timestamp = 1\<rparr>,
      \<lparr>role = System, msg_text = ''B'', timestamp = 2\<rparr>]"
  using handleStreamingLog_rule [of "[\<lparr>role = User, msg_text = ''Hi'', timestamp = 7\<rparr>]" User "''there''" 9 "''A''" 1 "''B''" 2]
        handleStreamingLog_rule [of "[\<lparr>role = User, msg_text = ''Hi'', timestamp = 7\<rparr>]" Model "''there''" 9 "''A''" 1 "''B''" 2]
        handleStreamingLog_rule [of "[]" System "''there''" 9 "''A''" 1 "''B''" 2]
  by simp

text \<open>
  Claim C3 as the specification states it fails where the last message's text is empty:
  the empty text does not end with a space and "Hi" does not start with one, yet the
  merged text is "Hi", with no space put in.
\<close>

theorem handleStreamingLog_empty_text_counterexample:
  "\<not> endsWith [] '' '' \<and> \<not> startsWith ''Hi'' '' ''
   \<and> handleStreamingLog [\<lparr>role = User, msg_text = [], timestamp = 0\<rparr>] User ''Hi'' 1
       = [\<lparr>role = User, msg_text = ''Hi'', timestamp = 0\<rparr>]
   \<and> handleStreamingLog [\<lparr>role = User, msg_text = [], timestamp = 0\<rparr>] User ''Hi'' 1
       \<noteq> [\<lparr>role = User, msg_text = [] @ '' '' @ ''Hi'', timestamp = 0\<rparr>]"
  by (simp add: handleStreamingLog_def endsWith_def startsWith_def)

text \<open>
  Claim C10. When an event is merged into the last message, the log keeps its length,
  every message before the last is unchanged, and the last message differs from the old
  one in its text only: role and timestamp are the old ones, and the time read at the
  event is not used.
\<close>

theorem handleStreamingLog_merge_frame:
  assumes "prev \<noteq> []" and "role (last prev) = r" and "r \<noteq> System"
  shows "length (handleStreamingLog prev r t now) = length prev
         \<and> butlast (handleStreamingLog prev r t now) = butlast prev
         \<and> (\<forall>i < length prev - 1. handleStreamingLog prev r t now ! i = prev ! i)
         \<and> role (last (handleStreamingLog prev r t now)) = role (last prev)
         \<and> timestamp (last (handleStreamingLog prev r t now)) = timestamp (last prev)
         \<and> last (handleStreamingLog prev r t now) =
             (last prev)\<lparr>msg_text := msg_text (last (handleStreamingLog prev r t now))\<rparr>
         \<and> handleStreamingLog prev r t now = handleStreamingLog prev r t now'"
proof -
  from assms(1) obtain ps m where p: "prev = ps @ [m]" by (cases prev rule: rev_cases) auto
  with assms have m: "role m = r" by simp
  note e = handleStreamingLog_merge [OF m assms(3), of ps t]
  show ?thesis unfolding p e by (simp add: nth_append)
qed

theorem handleStreamingLog_merge_frame_witness:
  "handleStreamingLog
     [\<lparr>role = Model, msg_text = ''a'', timestamp = 5\<rparr>, \<lparr>role = User, msg_text = ''Hi'', timestamp = 7\<rparr>]
     User ''there'' 99
   = [\<lparr>role = Model, msg_text = ''a'', timestamp = 5\<rparr>,
      \<lparr>role = User, msg_text = ''Hi there'', timestamp = 7\<rparr>]"
proof -
  let ?prev = "[\<lparr>role = Model, msg_text = ''a'', timestamp = 5\<rparr>,
                \<lparr>role = User, msg_text = ''Hi'', timestamp = 7\<rparr>]"
  have h: "?prev \<noteq> []" "role (last ?prev) = User" "User \<noteq> System" by simp_all
  have t: "msg_text (last (handleStreamingLog ?prev User ''there'' 99)) = ''Hi there''"
    by (simp add: handleStreamingLog_def endsWith_def startsWith_def)
  from handleStreamingLog_merge_frame [OF h, of "''there''" 99 0]
  have "butlast (handleStreamingLog ?prev User ''there'' 99) = butlast ?prev"
    and "last (handleStreamingLog ?prev User ''there'' 99) =
           (last ?prev)\<lparr>msg_text := msg_text (last (handleStreamingLog ?prev User ''there'' 99))\<rparr>"
    and "length (handleStreamingLog ?prev User ''there'' 99) = length ?prev"
    by blast+
  then have "handleStreamingLog ?prev User ''there'' 99 =
        butlast ?prev @ [(last ?prev)\<lparr>msg_text := ''Hi there''\<rparr>]"
    unfolding t by (metis append_butlast_last_id length_0_conv h(1))
  then show ?thesis by simp
qed

section \<open>Properties of the sample codec\<close>

subsection \<open>float32ToInt16\<close>

lemma trunc_bounds:
  assumes "real_of_int lo \<le> x" "x \<le> real_of_int hi" "lo \<le> 0" "0 \<le> hi"
  shows "lo \<le> trunc x \<and> trunc x \<le> hi"
proof (cases "x < 0")
  case True
  have "trunc x = \<lceil>x\<rceil>" using True by (simp add: trunc_def ceiling_def)
  moreover have "lo \<le> \<lceil>x\<rceil>" using assms(1) by (simp add: le_ceiling_iff)
  moreover have "\<lceil>x\<rceil> \<le> hi" using assms(2) by (simp add: ceiling_le_iff)
  ultimately show ?thesis by simp
next
  case False
  have "trunc x = \<lfloor>x\<rfloor>" using False by (simp add: trunc_def)
  moreover have "lo \<le> \<lfloor>x\<rfloor>" using assms(1) by (simp add: le_floor_iff)
  moreover have "\<lfloor>x\<rfloor> \<le> hi" using assms(2) by (simp add: floor_le_iff)
  ultimately show ?thesis by simp
qed

lemma int16_wrap:
  fixes n :: int
  assumes "- 32768 \<le> n \<and> n \<le> 32767"
  shows "(if 32768 \<le> n mod 65536 then n mod 65536 - 65536 else n mod 65536) = n"
proof (cases "n < 0")
  case True
  have "(n + 65536) mod 65536 = n + 65536" using assms True by (intro mod_pos_pos_trivial) simp_all
  then have "n mod 65536 = n + 65536" by simp
  then show ?thesis using True assms by simp
next
  case False
  have "n mod 65536 = n" using assms False by (intro mod_pos_pos_trivial) simp_all
  then show ?thesis using assms by simp
qed

lemma toInt16_in_range:
  assumes "- 32768 \<le> x" "x \<le> 32767"
  shows "toInt16 (Num x) = trunc x" "- 32768 \<le> trunc x" "trunc x \<le> 32767"
proof -
  have b: "- 32768 \<le> trunc x \<and> trunc x \<le> 32767"
    using trunc_bounds [of "- 32768" x 32767] assms by simp
  then show "toInt16 (Num x) = trunc x" using int16_wrap [of "trunc x"] by (simp add: Let_def)
  from b show "- 32768 \<le> trunc x" "trunc x \<le> 32767" by simp_all
qed

lemma sample_Num:
  fixes x :: real
  defines "s \<equiv> max (- 1) (min 1 x)"
  shows "float32ToInt16_sample (Num x) = (if s < 0 then trunc (s * 32768) else trunc (s * 32767))"
    and "- 32768 \<le> float32ToInt16_sample (Num x)" and "float32ToInt16_sample (Num x) \<le> 32767"
proof -
  have b: "- 1 \<le> s" "s \<le> 1" by (auto simp: s_def)
  have u: "float32ToInt16_sample (Num x) = toInt16 (Num (if s < 0 then s * 32768 else s * 32767))"
  proof (cases "s < 0")
    case True
    then show ?thesis unfolding s_def
      by (simp only: float32ToInt16_sample_def Let_def math_min.simps math_max.simps
            js_less.simps js_times.simps if_True)
  next
    case False
    then show ?thesis unfolding s_def
      by (simp only: float32ToInt16_sample_def Let_def math_min.simps math_max.simps
            js_less.simps js_times.simps if_False)
  qed
  have r: "- 32768 \<le> (if s < 0 then s * 32768 else s * 32767)"
          "(if s < 0 then s * 32768 else s * 32767) \<le> 32767" using b by auto
  note t = toInt16_in_range [OF r]
  show "float32ToInt16_sample (Num x) = (if s < 0 then trunc (s * 32768) else trunc (s * 32767))"
    unfolding u t(1) by simp
  show "- 32768 \<le> float32ToInt16_sample (Num x)" unfolding u t(1) by (rule t(2))
  show "float32ToInt16_sample (Num x) \<le> 32767" unfolding u t(1) by (rule t(3))
qed

lemma sample_range: "- 32768 \<le> float32ToInt16_sample y \<and> float32ToInt16_sample y \<le> 32767"
proof (cases y)
  case (Num x)
  then show ?thesis using sample_Num(2,3) [of x] by simp
qed (simp_all add: float32ToInt16_sample_def trunc_def)

text \<open>
  Claim C4, as the code has it. A finite sample is clipped to \<open>[-1, 1]\<close>, scaled by 32768
  when the clipped value is negative and by 32767 otherwise, and the product is truncated
  towards zero by the store into the \<^verbatim>\<open>Int16Array\<close> (there is no rounding to nearest);
  the store never wraps. Samples are converted one by one, in order, and the result has
  the length of the input: the function is total. 1.0 gives 32767, -1.0 gives -32768,
  0.0 gives 0, a value of 1 or more gives 32767, a value of -1 or less gives -32768, the
  infinities give 32767 and -32768, and NaN gives 0.
\<close>

theorem float32ToInt16_truncates:
  "float32ToInt16 [Num x] =
     [if max (- 1) (min 1 x) < 0 then trunc (max (- 1) (min 1 x) * 32768)
      else trunc (max (- 1) (min 1 x) * 32767)]
   \<and> float32ToInt16 (xs @ ys) = float32ToInt16 xs @ float32ToInt16 ys
   \<and> length (float32ToInt16 xs) = length xs
   \<and> (\<forall>v \<in> set (float32ToInt16 xs). - 32768 \<le> v \<and> v \<le> 32767)
   \<and> float32ToInt16 [Num 1, Num (- 1), Num 0] = [32767, - 32768, 0]
   \<and> (1 \<le> x \<longrightarrow> float32ToInt16 [Num x] = [32767])
   \<and> (x \<le> - 1 \<longrightarrow> float32ToInt16 [Num x] = [- 32768])
   \<and> float32ToInt16 [PosInf, NegInf, NaN] = [32767, - 32768, 0]"
proof -
  have 0: "float32ToInt16 [Num x] =
     [if max (- 1) (min 1 x) < 0 then trunc (max (- 1) (min 1 x) * 32768)
      else trunc (max (- 1) (min 1 x) * 32767)]" for x
    unfolding float32ToInt16_def list.map sample_Num(1) ..
  have 1: "float32ToInt16 [Num x] = [32767]" if "1 \<le> x" for x
    unfolding 0 using that by (simp add: trunc_def)
  have 2: "float32ToInt16 [Num x] = [- 32768]" if "x \<le> - 1" for x
    unfolding 0 using that by (simp add: trunc_def)
  have 3: "float32ToInt16 [Num 1, Num (- 1), Num 0] = [32767, - 32768, 0]"
    using 0 [of 1] 0 [of "- 1"] 0 [of 0] by (simp add: float32ToInt16_def trunc_def)
  have 4: "float32ToInt16 [PosInf, NegInf, NaN] = [32767, - 32768, 0]"
    by (simp add: float32ToInt16_def float32ToInt16_sample_def trunc_def)
  have 5: "\<forall>v \<in> set (float32ToInt16 xs). - 32768 \<le> v \<and> v \<le> 32767"
    using sample_range by (auto simp: float32ToInt16_def)
  have 6: "float32ToInt16 (xs @ ys) = float32ToInt16 xs @ float32ToInt16 ys"
    by (simp add: float32ToInt16_def)
  have 7: "length (float32ToInt16 xs) = length xs" by (simp add: float32ToInt16_def)
  from 0 1 2 3 4 5 6 7 show ?thesis by blast
qed

theorem float32ToInt16_truncates_witness:
  "(1::real) \<le> 2 \<and> float32ToInt16 [Num 2] = [32767]
   \<and> (- 3 :: real) \<le> - 1 \<and> float32ToInt16 [Num (- 3)] = [- 32768]
   \<and> float32ToInt16 [Num (1 / 4)] = [8191]"
  using float32ToInt16_truncates [of 2 "[]" "[]"]
        float32ToInt16_truncates [of "- 3" "[]" "[]"]
        float32ToInt16_truncates [of "1 / 4" "[]" "[]"]
  by (simp add: trunc_def)

text \<open>
  Claim C4 as the specification states it fails at the sample 0.25: the scaled value is
  8191.75, which rounds to 8192, and the code stores 8191.
\<close>

theorem float32ToInt16_round_counterexample:
  "float32ToInt16 [Num (1 / 4)] = [8191] \<and> round ((1 / 4 :: real) * 32767) = 8192"
proof -
  have "float32ToInt16_sample (Num (1 / 4)) = 8191"
    by (simp add: sample_Num(1) trunc_def)
  moreover have "round ((1 / 4 :: real) * 32767) = 8192"
    by (simp add: round_def)
  ultimately show ?thesis by (simp add: float32ToInt16_def)
qed

subsection \<open>The transport encoding\<close>

text \<open>The alphabet: each of the 64 values has its own character, none of them \<open>=\<close> or whitespace.\<close>

lemma b64index_b64char:
  assumes "n < 64"
  shows "b64index (b64char n) = Some n"
proof -
  consider "n < 26" | "26 \<le> n" "n < 52" | "52 \<le> n" "n < 62" | "n = 62" | "n = 63"
    using assms by linarith
  then show ?thesis
    by cases (auto simp: b64index_def b64char_def Let_def)
qed

lemma b64char_plain:
  assumes "n < 64"
  shows "b64char n \<noteq> CHR ''=''" and "\<not> isAsciiWhitespace (b64char n)"
proof -
  consider "n < 26" | "26 \<le> n" "n < 52" | "52 \<le> n" "n < 62" | "n = 62" | "n = 63"
    using assms by linarith
  then have "(of_char (b64char n) :: nat) \<notin> {61, 9, 10, 12, 13, 32}"
    by cases (auto simp: b64char_def)
  then show "b64char n \<noteq> CHR ''=''" and "\<not> isAsciiWhitespace (b64char n)"
    by (auto simp: isAsciiWhitespace_def)
qed

text \<open>Three bytes are four 6-bit values, and back.\<close>

lemma sextets:
  fixes a b c :: nat
  assumes "a < 256" "b < 256" "c < 256"
  shows "a div 4 < 64" "(a mod 4) * 16 + b div 16 < 64" "(b mod 16) * 4 + c div 64 < 64"
        "c mod 64 < 64" "(a mod 4) * 16 < 64" "(b mod 16) * 4 < 64"
  using assms by simp_all

lemma octets:
  fixes a b c :: nat
  assumes "b < 256" "c < 256"
  shows "a div 4 * 4 + ((a mod 4) * 16 + b div 16) div 16 = a"
        "(((a mod 4) * 16 + b div 16) mod 16) * 16 + ((b mod 16) * 4 + c div 64) div 4 = b"
        "(((b mod 16) * 4 + c div 64) mod 4) * 64 + c mod 64 = c"
        "a div 4 * 4 + ((a mod 4) * 16) div 16 = a"
        "(((a mod 4) * 16 + b div 16) mod 16) * 16 + ((b mod 16) * 4) div 4 = b"
proof -
  have b: "b div 16 < 16" and c: "c div 64 < 4" using assms by simp_all
  show "a div 4 * 4 + ((a mod 4) * 16 + b div 16) div 16 = a" using b by simp
  show "(((a mod 4) * 16 + b div 16) mod 16) * 16 + ((b mod 16) * 4 + c div 64) div 4 = b"
    using b c by simp
  show "(((b mod 16) * 4 + c div 64) mod 4) * 64 + c mod 64 = c" using c by simp
  show "a div 4 * 4 + ((a mod 4) * 16) div 16 = a" by simp
  show "(((a mod 4) * 16 + b div 16) mod 16) * 16 + ((b mod 16) * 4) div 4 = b" using b by simp
qed


text \<open>The shape of an encoding: groups of four characters, padding only at the very end.\<close>

lemma b64encode_length:
  "length (b64encode bs) mod 4 = 0" "bs \<noteq> [] \<Longrightarrow> 4 \<le> length (b64encode bs)"
  by (induction bs rule: b64encode.induct) simp_all

lemma stripPadding_append:
  assumes "2 \<le> length y"
  shows "stripPadding (x @ y) = x @ stripPadding y"
proof -
  have "endsWith (x @ y) p = endsWith y p" if "length p \<le> 2" for p
    using that assms by (auto simp: endsWith_def)
  then show ?thesis using assms by (simp add: stripPadding_def)
qed

lemma b64encode_no_whitespace:
  assumes "list_all (\<lambda>u. u < 256) bs"
  shows "filter (\<lambda>c. \<not> isAsciiWhitespace c) (b64encode bs) = b64encode bs"
  using assms
proof (induction bs rule: b64encode.induct)
  case (1 a b c rest)
  then have lt: "a < 256" "b < 256" "c < 256" and r: "list_all (\<lambda>u. u < 256) rest" by simp_all
  note s = sextets [OF lt]
  show ?case
    using "1.IH" [OF r] b64char_plain(2) [OF s(1)] b64char_plain(2) [OF s(2)]
      b64char_plain(2) [OF s(3)] b64char_plain(2) [OF s(4)]
    by simp
next
  case (2 a b)
  then have lt: "a < 256" "b < 256" by simp_all
  note s = sextets [OF lt lt(2)]
  show ?case
    using b64char_plain(2) [OF s(1)] b64char_plain(2) [OF s(2)] b64char_plain(2) [OF s(6)]
    by (simp add: isAsciiWhitespace_def)
next
  case (3 a)
  then have lt: "a < 256" by simp
  note s = sextets [OF lt lt lt]
  show ?case
    using b64char_plain(2) [OF s(1)] b64char_plain(2) [OF s(5)]
    by (simp add: isAsciiWhitespace_def)
next
  case 4
  show ?case by simp
qed

text \<open>Decoding what is left of an encoding once the padding is removed.\<close>

lemma b64decode_stripped:
  assumes "list_all (\<lambda>u. u < 256) bs"
  shows "length (stripPadding (b64encode bs)) mod 4 \<noteq> 1
         \<and> \<not> list_ex (\<lambda>c. b64index c = None) (stripPadding (b64encode bs))
         \<and> b64decode (map (\<lambda>c. the (b64index c)) (stripPadding (b64encode bs))) = bs"
  using assms
proof (induction bs rule: b64encode.induct)
  case (1 a b c rest)
  then have lt: "a < 256" "b < 256" "c < 256" and r: "list_all (\<lambda>u. u < 256) rest" by simp_all
  note s = sextets [OF lt]
  note ix = b64index_b64char [OF s(1)] b64index_b64char [OF s(2)]
            b64index_b64char [OF s(3)] b64index_b64char [OF s(4)]
  let ?g = "[b64char (a div 4), b64char ((a mod 4) * 16 + b div 16),
             b64char ((b mod 16) * 4 + c div 64), b64char (c mod 64)]"
  let ?d = "stripPadding (b64encode rest)"
  have sp: "stripPadding (b64encode (a # b # c # rest)) = ?g @ ?d"
  proof (cases "rest = []")
    case True
    then show ?thesis using b64char_plain(1) [OF s(4)]
      by (simp add: stripPadding_def endsWith_def)
  next
    case False
    then have "2 \<le> length (b64encode rest)" using b64encode_length(2) [of rest] by simp
    then show ?thesis unfolding b64encode.simps by (rule stripPadding_append)
  qed
  have dec: "b64decode (map (\<lambda>c. the (b64index c)) (?g @ ?d)) =
             a # b # c # b64decode (map (\<lambda>c. the (b64index c)) ?d)"
    by (simp only: map_append list.map ix option.sel append.simps b64decode.simps
          octets [OF lt(2,3)])
  from "1.IH" [OF r] show ?case
    unfolding sp dec by (simp add: ix)
next
  case (2 a b)
  then have lt: "a < 256" "b < 256" by simp_all
  note s = sextets [OF lt lt(2)]
  note ix = b64index_b64char [OF s(1)] b64index_b64char [OF s(2)] b64index_b64char [OF s(6)]
  let ?g = "[b64char (a div 4), b64char ((a mod 4) * 16 + b div 16), b64char ((b mod 16) * 4)]"
  have sp: "stripPadding (b64encode [a, b]) = ?g"
    using b64char_plain(1) [OF s(6)] by (simp add: stripPadding_def endsWith_def)
  have dec: "b64decode (map (\<lambda>c. the (b64index c)) ?g) = [a, b]"
    by (simp only: list.map ix option.sel b64decode.simps octets [OF lt(2) lt(2)])
  show ?case unfolding sp dec by (simp add: ix)
next
  case (3 a)
  then have lt: "a < 256" by simp
  note s = sextets [OF lt lt lt]
  note ix = b64index_b64char [OF s(1)] b64index_b64char [OF s(5)]
  let ?g = "[b64char (a div 4), b64char ((a mod 4) * 16)]"
  have sp: "stripPadding (b64encode [a]) = ?g"
    by (simp add: stripPadding_def endsWith_def)
  have dec: "b64decode (map (\<lambda>c. the (b64index c)) ?g) = [a]"
    by (simp only: list.map ix option.sel b64decode.simps octets [OF lt lt])
  show ?case unfolding sp dec by (simp add: ix)
next
  case 4
  show ?case by (simp add: stripPadding_def endsWith_def)
qed

lemma atob_b64encode:
  assumes "list_all (\<lambda>u. u < 256) bs"
  shows "atob (b64encode bs) = Inr bs"
  using b64decode_stripped [OF assms]
  by (simp add: atob_def Let_def b64encode_no_whitespace [OF assms] b64encode_length(1))

text \<open>Bytes are code units below 256, so the encoder never throws.\<close>

lemma bytes_small: "list_all (\<lambda>u. u < 256) (map unat (b :: byte list))"
proof -
  have "unat x < 256" for x :: byte using unsigned_less [of x, where 'a = nat] by simp
  then show ?thesis by (simp add: list_all_iff)
qed

lemma arrayBufferToBase64_encodes: "arrayBufferToBase64 b = Inr (b64encode (map unat b))"
proof -
  have "\<not> list_ex (\<lambda>u. u > 255) (map unat b)"
    using bytes_small [of b] by (auto simp: list_all_iff list_ex_iff)
  then show ?thesis by (simp add: arrayBufferToBase64_def btoa_def)
qed

text \<open>
  Claim C5. For every byte sequence, the empty one too, encoding succeeds and decoding
  the encoded text gives the bytes back.
\<close>

theorem base64_roundtrip:
  "\<exists>t. arrayBufferToBase64 b = Inr t \<and> base64ToUint8Array t = Inr b"
proof -
  have "base64ToUint8Array (b64encode (map unat b)) = Inr b"
    by (simp add: base64ToUint8Array_def atob_b64encode [OF bytes_small] map_idI)
  with arrayBufferToBase64_encodes [of b] show ?thesis by blast
qed

section \<open>Properties of the session\<close>

subsection \<open>Finish\<close>

lemma join_Cons: "join sep (x # xs) = (if xs = [] then x else x @ sep @ join sep xs)"
  by (cases xs) simp_all

lemma toUpperCase_roleName:
  "toUpperCase (roleName r) = (case r of User \<Rightarrow> ''USER'' | Model \<Rightarrow> ''MODEL'' | System \<Rightarrow> ''SYSTEM'')"
  by (cases r) (simp_all add: toUpperCase_def roleName_def char_of_eq_iff)

lemma fullTranscript_spec: "fullTranscript ls = spec_finalTranscriptText ls"
proof (induction ls)
  case Nil
  show ?case by (simp add: fullTranscript_def)
next
  case (Cons m ms)
  have e: "(filter (\<lambda>l. role l \<noteq> System) ms = []) = list_all (\<lambda>m'. role m' = System) ms"
    by (auto simp: filter_empty_conv list_all_iff)
  from Cons show ?case
    by (simp add: fullTranscript_def join_Cons e spec_render_def toUpperCase_roleName)
qed

text \<open>The local steps of the teardown leave the log alone and cannot fail.\<close>

lemma teardownLocal_logsRef: "logsRef (teardownLocal s) = logsRef s"
  by (simp add: teardownLocal_def Let_def split: option.splits)

lemma handleDisconnect_returns:
  assumes "\<not> connectRejected s"
  shows "\<exists>s1. handleDisconnect s = Inr s1 \<and> logsRef s1 = logsRef s"
  using assms
  by (auto simp: handleDisconnect_def connectRejected_def disconnect_def teardownLocal_logsRef
      split: option.splits promise.splits)

text \<open>
  Where the teardown does not throw, finish returns: it queues the status \<open>finished\<close>
  and hands the host one text, the log of that moment without its system entries, each
  message as its role in capitals, a colon, a space and its text, the messages joined by
  newlines in the order of the log.
\<close>

lemma handleFinish_returns_transcript:
  assumes "\<not> connectRejected s"
  shows "\<exists>s1. handleDisconnect s = Inr s1
           \<and> handleFinish s =
               Inr (s1\<lparr>pendingStatus := Some Finished,
                       effects := effects s1 @ [OnComplete (spec_finalTranscriptText (logsRef s))]\<rparr>)"
proof -
  from handleDisconnect_returns [OF assms] obtain s1
    where d: "handleDisconnect s = Inr s1" and l: "logsRef s1 = logsRef s" by blast
  have "handleFinish s =
               Inr (s1\<lparr>pendingStatus := Some Finished,
                       effects := effects s1 @ [OnComplete (spec_finalTranscriptText (logsRef s))]\<rparr>)"
    by (simp add: handleFinish_def d setStatus_def Let_def fullTranscript_spec l)
  with d show ?thesis by blast
qed

lemma handleFinish_returns_transcript_example:
  "\<not> connectRejected
       (initialSession\<lparr>logsRef := [\<lparr>role = User, msg_text = ''hi'', timestamp = 1\<rparr>,
                                   \<lparr>role = System, msg_text = ''note'', timestamp = 2\<rparr>,
                                   \<lparr>role = Model, msg_text = ''yo'', timestamp = 3\<rparr>]\<rparr>)
   \<and> (\<exists>s1. handleFinish
       (initialSession\<lparr>logsRef := [\<lparr>role = User, msg_text = ''hi'', timestamp = 1\<rparr>,
                                   \<lparr>role = System, msg_text = ''note'', timestamp = 2\<rparr>,
                                   \<lparr>role = Model, msg_text = ''yo'', timestamp = 3\<rparr>]\<rparr>)
       = Inr s1 \<and> effects s1 = [OnComplete (''USER: hi'' @ [CHR 0x0A] @ ''MODEL: yo'')])"
proof -
  let ?s = "initialSession\<lparr>logsRef := [\<lparr>role = User, msg_text = ''hi'', timestamp = 1\<rparr>,
                                   \<lparr>role = System, msg_text = ''note'', timestamp = 2\<rparr>,
                                   \<lparr>role = Model, msg_text = ''yo'', timestamp = 3\<rparr>]\<rparr>"
  have h: "\<not> connectRejected ?s" by (simp add: connectRejected_def initialSession_def)
  have d: "handleDisconnect ?s = Inr ?s"
    by (simp add: handleDisconnect_def teardownLocal_def initialSession_def)
  from handleFinish_returns_transcript [OF h] d
  have "handleFinish ?s = Inr (?s\<lparr>pendingStatus := Some Finished,
          effects := effects ?s @ [OnComplete (spec_finalTranscriptText (logsRef ?s))]\<rparr>)"
    by auto
  then have "\<exists>s1. handleFinish ?s = Inr s1
      \<and> effects s1 = [OnComplete (''USER: hi'' @ [CHR 0x0A] @ ''MODEL: yo'')]"
    by (simp add: initialSession_def spec_render_def)
  with h show ?thesis by blast
qed

text \<open>
  Where the connect promise was rejected, the teardown throws and finish with it: nothing
  after the \<^verbatim>\<open>await\<close> runs, so no status is queued and the host gets no text.
\<close>

lemma handleFinish_throws:
  assumes "connectRejected s"
  shows "\<exists>err. handleDisconnect s = Inl (Rejection err) \<and> handleFinish s = Inl (Rejection err)"
  using assms
  by (auto simp: connectRejected_def handleFinish_def handleDisconnect_def disconnect_def
      split: option.splits promise.splits)

text \<open>
  Claim C8, where the code departs from it. A voice session is started with the
  microphone open, and the connection to the remote service fails; the log then holds two
  system entries, so the final transcript is the empty text. Finish should hand the host
  that text. It throws the rejection instead, out of the teardown it awaits first: the
  host's \<^verbatim>\<open>onComplete\<close> is never called and the status \<open>finished\<close> is never queued. This
  is the defect of claim C9, seen from finish.
\<close>

theorem handleFinish_throws_after_failed_connect:
  "logsRef (render (handleStart
       \<lparr>API_KEY = Some ''key'', mode = VOICE, getUserMedia = Inr [0],
        liveConnect = Rejected ''refused'', chatStart = Inr [], now1 = 5, now2 = 6\<rparr> initialSession))
     = [\<lparr>role = System, msg_text = ''Connecting to Gemini Live...'', timestamp = 5\<rparr>,
        \<lparr>role = System, msg_text = ''Error: refused'', timestamp = 6\<rparr>]
   \<and> fullTranscript (logsRef (render (handleStart
       \<lparr>API_KEY = Some ''key'', mode = VOICE, getUserMedia = Inr [0],
        liveConnect = Rejected ''refused'', chatStart = Inr [], now1 = 5, now2 = 6\<rparr> initialSession)))
     = []
   \<and> effects (render (handleStart
       \<lparr>API_KEY = Some ''key'', mode = VOICE, getUserMedia = Inr [0],
        liveConnect = Rejected ''refused'', chatStart = Inr [], now1 = 5, now2 = 6\<rparr> initialSession))
     = [TransportConnect]
   \<and> handleFinish (render (handleStart
       \<lparr>API_KEY = Some ''key'', mode = VOICE, getUserMedia = Inr [0],
        liveConnect = Rejected ''refused'', chatStart = Inr [], now1 = 5, now2 = 6\<rparr> initialSession))
     = Inl (Rejection ''refused'')"
  by (simp add: handleStart_def startVoiceSession_def Let_def setStatus_def render_def
      streamingLog_def handleStreamingLog_def initialSession_def handleDisconnect_def
      disconnect_def handleFinish_def fullTranscript_def)

subsection \<open>Start\<close>

lemma streamingLog_System:
  "streamingLog System t now s =
     s\<lparr>logs := logs s @ [\<lparr>role = System, msg_text = t, timestamp = now\<rparr>],
       logsRef := logs s @ [\<lparr>role = System, msg_text = t, timestamp = now\<rparr>]\<rparr>"
  by (simp add: streamingLog_def handleStreamingLog_def Let_def)

text \<open>
  Claim C6. With no API key (the variable undefined or empty), start queues the status
  \<open>error\<close>, appends exactly one system entry, "API Key missing", to the log, and changes
  nothing else: no call reaches the remote service and no service object is created. The
  function returns without waiting, so no render comes between its two calls of
  \<^verbatim>\<open>setStatus\<close>: the status \<open>connecting\<close>, queued first, is never shown, and from \<open>idle\<close> the
  next render shows \<open>error\<close>.
\<close>

theorem handleStart_no_credential:
  assumes "API_KEY w = None \<or> API_KEY w = Some []"
  shows "handleStart w s =
           s\<lparr>pendingStatus := Some Error,
             logs := logs s @ [\<lparr>role = System, msg_text = ''API Key missing'', timestamp = now1 w\<rparr>],
             logsRef := logs s @ [\<lparr>role = System, msg_text = ''API Key missing'', timestamp = now1 w\<rparr>]\<rparr>
         \<and> \<not> list_ex isTransportCall (drop (length (effects s)) (effects (handleStart w s)))
         \<and> (status s = Idle \<longrightarrow>
              status (render (handleStart w s)) = Error
              \<and> statusHistory (render (handleStart w s)) = statusHistory s @ [Error])"
proof -
  have e: "handleStart w s =
           s\<lparr>pendingStatus := Some Error,
             logs := logs s @ [\<lparr>role = System, msg_text = ''API Key missing'', timestamp = now1 w\<rparr>],
             logsRef := logs s @ [\<lparr>role = System, msg_text = ''API Key missing'', timestamp = now1 w\<rparr>]\<rparr>"
    using assms by (auto simp: handleStart_def Let_def setStatus_def streamingLog_System)
  show ?thesis unfolding e by (simp add: render_def)
qed

theorem handleStart_no_credential_witness:
  "render (handleStart \<lparr>API_KEY = None, mode = VOICE, getUserMedia = Inr [0],
                        liveConnect = Resolved True, chatStart = Inr [], now1 = 5, now2 = 6\<rparr>
             initialSession)
   = initialSession\<lparr>status := Error, statusRef := Error, statusHistory := [Idle, Error],
       logs := [\<lparr>role = System, msg_text = ''API Key missing'', timestamp = 5\<rparr>],
       logsRef := [\<lparr>role = System, msg_text = ''API Key missing'', timestamp = 5\<rparr>]\<rparr>"
proof -
  let ?w = "\<lparr>API_KEY = None, mode = VOICE, getUserMedia = Inr [0],
             liveConnect = Resolved True, chatStart = Inr [], now1 = 5, now2 = 6\<rparr>"
  have h: "API_KEY ?w = None \<or> API_KEY ?w = Some []" by simp
  from handleStart_no_credential [OF h, of initialSession]
  have "handleStart ?w initialSession =
          initialSession\<lparr>pendingStatus := Some Error,
             logs := logs initialSession @ [\<lparr>role = System, msg_text = ''API Key missing'', timestamp = now1 ?w\<rparr>],
             logsRef := logs initialSession @ [\<lparr>role = System, msg_text = ''API Key missing'', timestamp = now1 ?w\<rparr>]\<rparr>"
    by blast
  then show ?thesis by (simp add: render_def initialSession_def)
qed

text \<open>
  With a key, a voice start that succeeds ends connected, with the microphone callback
  registered. The flag the callback holds is the mute flag at the start, whatever is
  pressed later.
\<close>

lemma handleStart_voice_connected:
  assumes "API_KEY w = Some k" "k \<noteq> []" "mode w = VOICE" "getUserMedia w = Inr tracks"
    "liveConnect w = Resolved c"
  shows "status (render (handleStart w s)) = Connected"
    and "statusRef (render (handleStart w s)) = Connected"
    and "processorRef (render (handleStart w s)) = Some \<lparr>closure_isMuted = isMuted s\<rparr>"
    and "liveServiceRef (render (handleStart w s)) = Some \<lparr>sessionPromise = Some (Resolved c)\<rparr>"
    and "audioStreamRef (render (handleStart w s)) = Some tracks"
    and "isMuted (render (handleStart w s)) = isMuted s"
  using assms
  by (simp_all add: handleStart_def startVoiceSession_def Let_def setStatus_def render_def
      streamingLog_def split: option.splits)

subsection \<open>Capture\<close>

text \<open>
  The gate of the capture callback, on the flag the callback holds: a frame is dropped,
  with no call and no error, when that flag is set or the status ref is not \<open>connected\<close>;
  otherwise the frame is converted, encoded and handed to the live service, which sends
  it when its session is open.
\<close>

lemma onaudioprocess_gate:
  "closure_isMuted node \<or> statusRef s \<noteq> Connected \<Longrightarrow> onaudioprocess node frame s = Inr s"
  "\<not> closure_isMuted node \<Longrightarrow> statusRef s = Connected \<Longrightarrow>
     liveServiceRef s = Some \<lparr>sessionPromise = Some (Resolved c)\<rparr> \<Longrightarrow>
     onaudioprocess node frame s =
       Inr (s\<lparr>effects := effects s @
              [TransportSend (b64encode (map unat (int16ArrayBuffer (float32ToInt16 frame))))]\<rparr>)"
  by (auto simp: onaudioprocess_def arrayBufferToBase64_encodes sendAudioChunk_def)

text \<open>
  Claim C7, where the code departs from it. A voice session is started with the
  microphone open and connects; then the mute button is pressed. The mute flag is set and
  the status is \<open>connected\<close>, yet the next capture callback does not drop its frame: the
  frame (one sample, 0.0) is converted and sent. The callback tests the mute flag of the
  render in which it was created, not the present one.
\<close>

theorem onaudioprocess_sends_while_muted:
  "isMuted (toggleMute (render (handleStart
       \<lparr>API_KEY = Some ''key'', mode = VOICE, getUserMedia = Inr [0],
        liveConnect = Resolved True, chatStart = Inr [], now1 = 5, now2 = 6\<rparr> initialSession)))
   \<and> statusRef (toggleMute (render (handleStart
       \<lparr>API_KEY = Some ''key'', mode = VOICE, getUserMedia = Inr [0],
        liveConnect = Resolved True, chatStart = Inr [], now1 = 5, now2 = 6\<rparr> initialSession)))
       = Connected
   \<and> processorRef (toggleMute (render (handleStart
       \<lparr>API_KEY = Some ''key'', mode = VOICE, getUserMedia = Inr [0],
        liveConnect = Resolved True, chatStart = Inr [], now1 = 5, now2 = 6\<rparr> initialSession)))
       = Some \<lparr>closure_isMuted = False\<rparr>
   \<and> (\<exists>s'. onaudioprocess \<lparr>closure_isMuted = False\<rparr> [Num 0]
          (toggleMute (render (handleStart
            \<lparr>API_KEY = Some ''key'', mode = VOICE, getUserMedia = Inr [0],
             liveConnect = Resolved True, chatStart = Inr [], now1 = 5, now2 = 6\<rparr> initialSession)))
        = Inr s' \<and> effects s' = [TransportConnect, TransportSend ''AAA=''])"
proof -
  let ?w = "\<lparr>API_KEY = Some ''key'', mode = VOICE, getUserMedia = Inr [0::nat],
             liveConnect = Resolved True, chatStart = Inr [], now1 = 5, now2 = 6\<rparr>"
  let ?s = "render (handleStart ?w initialSession)"
  have hw: "API_KEY ?w = Some ''key''" "''key'' \<noteq> []" "mode ?w = VOICE"
    "getUserMedia ?w = Inr [0]" "liveConnect ?w = Resolved True" by simp_all
  note c = handleStart_voice_connected [OF hw, of initialSession]
  have i: "isMuted initialSession = False" by (simp add: initialSession_def)
  have m: "isMuted (toggleMute ?s)" using c(6) i by (simp add: toggleMute_def)
  have p: "processorRef (toggleMute ?s) = Some \<lparr>closure_isMuted = False\<rparr>"
    using c(3) i by (simp add: toggleMute_def)
  have r: "statusRef (toggleMute ?s) = Connected" using c(2) by (simp add: toggleMute_def)
  have l: "liveServiceRef (toggleMute ?s) = Some \<lparr>sessionPromise = Some (Resolved True)\<rparr>"
    using c(4) by (simp add: toggleMute_def)
  have e: "effects (toggleMute ?s) = [TransportConnect]"
    by (simp add: toggleMute_def handleStart_def startVoiceSession_def Let_def setStatus_def
        render_def streamingLog_def initialSession_def)
  have b: "arrayBufferToBase64 (int16ArrayBuffer (float32ToInt16 [Num 0])) = Inr ''AAA=''"
    by (simp add: arrayBufferToBase64_def int16ArrayBuffer_def float32ToInt16_def
        float32ToInt16_sample_def trunc_def btoa_def b64char_def char_of_eq_iff)
  have "\<exists>s'. onaudioprocess \<lparr>closure_isMuted = False\<rparr> [Num 0] (toggleMute ?s) = Inr s'
      \<and> effects s' = [TransportConnect, TransportSend ''AAA='']"
    by (simp add: onaudioprocess_def r b l sendAudioChunk_def e)
  with m p r show ?thesis by blast
qed

subsection \<open>Teardown\<close>

text \<open>
  When the first step does not throw, the teardown leaves a session on which a second
  teardown does nothing: no call, no change.
\<close>

lemma teardownLocal_refs:
  "processorRef (teardownLocal s) = None"
  "audioStreamRef (teardownLocal s) = None"
  "bufferSourceRef (teardownLocal s) = []"
  "audioContextRef (teardownLocal s) = None \<or> audioContextRef (teardownLocal s) = Some Closed"
  by (simp_all add: teardownLocal_def Let_def split: option.splits)

lemma teardownLocal_idle:
  assumes "processorRef t = None" "audioStreamRef t = None" "bufferSourceRef t = []"
    "audioContextRef t = None \<or> audioContextRef t = Some Closed"
  shows "teardownLocal t = t"
  using assms by (cases t) (auto simp: teardownLocal_def)

lemma teardownLocal_fixed:
  "teardownLocal (teardownLocal s) = teardownLocal s"
  by (rule teardownLocal_idle) (rule teardownLocal_refs)+

lemma teardownLocal_liveServiceRef: "liveServiceRef (teardownLocal s) = liveServiceRef s"
  by (simp add: teardownLocal_def Let_def split: option.splits)

lemma handleDisconnect_twice:
  assumes "handleDisconnect s = Inr s'"
  shows "handleDisconnect s' = Inr s'"
proof (cases "liveServiceRef s")
  case None
  with assms have s': "s' = teardownLocal s" by (simp add: handleDisconnect_def)
  show ?thesis unfolding s' using None
    by (simp add: handleDisconnect_def teardownLocal_fixed teardownLocal_liveServiceRef)
next
  case (Some svc)
  with assms obtain svc' es where d: "disconnect svc = Inr (svc', es)"
    and s': "s' = teardownLocal (s\<lparr>liveServiceRef := Some svc', effects := effects s @ es\<rparr>)"
    by (auto simp: handleDisconnect_def split: sum.splits)
  from d have n: "sessionPromise svc' = None"
    by (auto simp: disconnect_def split: option.splits promise.splits if_splits)
  have "liveServiceRef s' = Some svc'" unfolding s'
    by (simp add: teardownLocal_liveServiceRef)
  then have "handleDisconnect s' = Inr (teardownLocal s')"
    using n by (cases s') (simp add: handleDisconnect_def disconnect_def)
  then show ?thesis unfolding s' by (simp add: teardownLocal_fixed)
qed

text \<open>
  Claim C9, where the code departs from it. A voice session is started with the
  microphone open, and the connection to the remote service fails: the status is \<open>error\<close>
  and the stream's track is still live. The teardown then throws the rejection in its
  first step, before any other step has run, and leaves everything as it was: the track
  is not stopped and the audio device is not closed, and a second teardown throws
  again. Finish throws with it and never reaches the host.
\<close>

theorem handleDisconnect_throws_after_failed_connect:
  "status (render (handleStart
       \<lparr>API_KEY = Some ''key'', mode = VOICE, getUserMedia = Inr [0],
        liveConnect = Rejected ''refused'', chatStart = Inr [], now1 = 5, now2 = 6\<rparr> initialSession))
     = Error
   \<and> audioStreamRef (render (handleStart
       \<lparr>API_KEY = Some ''key'', mode = VOICE, getUserMedia = Inr [0],
        liveConnect = Rejected ''refused'', chatStart = Inr [], now1 = 5, now2 = 6\<rparr> initialSession))
     = Some [0]
   \<and> audioContextRef (render (handleStart
       \<lparr>API_KEY = Some ''key'', mode = VOICE, getUserMedia = Inr [0],
        liveConnect = Rejected ''refused'', chatStart = Inr [], now1 = 5, now2 = 6\<rparr> initialSession))
     = Some Running
   \<and> handleDisconnect (render (handleStart
       \<lparr>API_KEY = Some ''key'', mode = VOICE, getUserMedia = Inr [0],
        liveConnect = Rejected ''refused'', chatStart = Inr [], now1 = 5, now2 = 6\<rparr> initialSession))
     = Inl (Rejection ''refused'')
   \<and> handleFinish (render (handleStart
       \<lparr>API_KEY = Some ''key'', mode = VOICE, getUserMedia = Inr [0],
        liveConnect = Rejected ''refused'', chatStart = Inr [], now1 = 5, now2 = 6\<rparr> initialSession))
     = Inl (Rejection ''refused'')"
  by (simp add: handleStart_def startVoiceSession_def Let_def setStatus_def render_def
      streamingLog_def initialSession_def handleDisconnect_def disconnect_def handleFinish_def)

subsection \<open>Playback\<close>

lemma duration_nonneg: "0 \<le> duration b"
  by (simp add: duration_def)

text \<open>One arrival: dropped, failed, or scheduled at the later of the device time and the clock.\<close>

lemma onAudioData_cases:
  assumes "onAudioData s ct b = Inr s'"
  shows "s' = s \<or>
         (\<exists>d \<ge> 0. effects s' = effects s @ [SourceStart (sourcesCreated s) (max ct (nextStartTimeRef s)) d]
                  \<and> nextStartTimeRef s' = max ct (nextStartTimeRef s) + d)"
  using assms duration_nonneg
  by (auto simp: onAudioData_def schedulePlayback_def Let_def split: if_splits sum.splits)

lemma scheduled_append: "scheduled (es @ fs) = scheduled es @ scheduled fs"
  by (induction es rule: scheduled.induct) simp_all

lemma nonOverlapping_snoc:
  "nonOverlapping (xs @ [(st, d)]) =
     (nonOverlapping xs \<and> (xs \<noteq> [] \<longrightarrow> fst (last xs) + snd (last xs) \<le> st))"
  by (induction xs rule: nonOverlapping.induct) auto

lemma arrivals_snoc:
  "arrivals s (evs @ [(ct, b)]) =
     (case onAudioData (arrivals s evs) ct b of Inl e \<Rightarrow> arrivals s evs | Inr s' \<Rightarrow> s')"
  by (induction s evs rule: arrivals.induct) (simp_all cong: sum.case_cong)

text \<open>
  What a run of arrivals keeps true: the effects only grow, the clock does not go back,
  the playbacks started during the run do not overlap, and the last of them ends no later
  than the clock.
\<close>

lemma arrivals_invariant:
  "\<exists>new. effects (arrivals s evs) = effects s @ new
     \<and> nextStartTimeRef s \<le> nextStartTimeRef (arrivals s evs)
     \<and> nonOverlapping (scheduled new)
     \<and> (scheduled new \<noteq> [] \<longrightarrow>
          fst (last (scheduled new)) + snd (last (scheduled new)) \<le> nextStartTimeRef (arrivals s evs))"
proof (induction evs rule: rev_induct)
  case Nil
  show ?case by simp
next
  case (snoc e evs)
  obtain ct b where e: "e = (ct, b)" by (cases e)
  let ?t = "arrivals s evs"
  from snoc obtain new where new: "effects ?t = effects s @ new"
    and mono: "nextStartTimeRef s \<le> nextStartTimeRef ?t"
    and no: "nonOverlapping (scheduled new)"
    and lst: "scheduled new \<noteq> [] \<longrightarrow>
          fst (last (scheduled new)) + snd (last (scheduled new)) \<le> nextStartTimeRef ?t"
    by blast
  show ?case
  proof (cases "onAudioData ?t ct b")
    case (Inl err)
    then have "arrivals s (evs @ [e]) = ?t" by (simp add: e arrivals_snoc)
    with new mono no lst show ?thesis by auto
  next
    case (Inr t')
    then have a: "arrivals s (evs @ [e]) = t'" by (simp add: e arrivals_snoc)
    from onAudioData_cases [OF Inr] show ?thesis
    proof
      assume "t' = ?t"
      with a new mono no lst show ?thesis by auto
    next
      assume "\<exists>d \<ge> 0. effects t' = effects ?t @ [SourceStart (sourcesCreated ?t) (max ct (nextStartTimeRef ?t)) d]
                  \<and> nextStartTimeRef t' = max ct (nextStartTimeRef ?t) + d"
      then obtain d where d: "0 \<le> d"
        and ef: "effects t' = effects ?t @ [SourceStart (sourcesCreated ?t) (max ct (nextStartTimeRef ?t)) d]"
        and cl: "nextStartTimeRef t' = max ct (nextStartTimeRef ?t) + d" by blast
      let ?new = "new @ [SourceStart (sourcesCreated ?t) (max ct (nextStartTimeRef ?t)) d]"
      have 1: "effects t' = effects s @ ?new" using ef new by simp
      have 2: "nextStartTimeRef s \<le> nextStartTimeRef t'" using cl mono d by simp
      have sn: "scheduled ?new = scheduled new @ [(max ct (nextStartTimeRef ?t), d)]"
        by (simp add: scheduled_append)
      have 3: "nonOverlapping (scheduled ?new)"
        unfolding sn nonOverlapping_snoc using no lst by auto
      have 4: "fst (last (scheduled ?new)) + snd (last (scheduled ?new)) \<le> nextStartTimeRef t'"
        unfolding sn using cl by simp
      from 1 2 3 4 show ?thesis unfolding a by blast
    qed
  qed
qed

text \<open>
  Claim C1. A fragment that arrives while the output device is open and that decodes is
  started at the later of the device time and the playback clock, and the clock becomes
  that start time plus the fragment's duration. For every sequence of arrivals, from
  every state, the playbacks started during the sequence do not overlap (each starts no
  earlier than the one before it ends), and the clock never goes back, neither over the
  whole sequence nor from one arrival to the next.
\<close>

theorem playback_schedule:
  "(audioContextRef s \<noteq> None \<and> audioContextRef s \<noteq> Some Closed
      \<and> base64ToUint8Array b = Inr rawBytes \<and> pcmToAudioBuffer rawBytes 24000 = Inr buffer \<longrightarrow>
      (\<exists>s'. onAudioData s ct b = Inr s'
         \<and> effects s' = effects s @ [SourceStart (sourcesCreated s) (max ct (nextStartTimeRef s)) (duration buffer)]
         \<and> nextStartTimeRef s' = max ct (nextStartTimeRef s) + duration buffer))
   \<and> nonOverlapping (scheduled (drop (length (effects s)) (effects (arrivals s evs))))
   \<and> nextStartTimeRef s \<le> nextStartTimeRef (arrivals s evs)
   \<and> nextStartTimeRef (arrivals s (take k evs)) \<le> nextStartTimeRef (arrivals s (take (Suc k) evs))"
proof (intro conjI impI)
  assume "audioContextRef s \<noteq> None \<and> audioContextRef s \<noteq> Some Closed
      \<and> base64ToUint8Array b = Inr rawBytes \<and> pcmToAudioBuffer rawBytes 24000 = Inr buffer"
  then show "\<exists>s'. onAudioData s ct b = Inr s'
         \<and> effects s' = effects s @ [SourceStart (sourcesCreated s) (max ct (nextStartTimeRef s)) (duration buffer)]
         \<and> nextStartTimeRef s' = max ct (nextStartTimeRef s) + duration buffer"
    by (simp add: onAudioData_def schedulePlayback_def Let_def)
next
  from arrivals_invariant [of s evs]
  show "nonOverlapping (scheduled (drop (length (effects s)) (effects (arrivals s evs))))"
    by auto
next
  from arrivals_invariant [of s evs]
  show "nextStartTimeRef s \<le> nextStartTimeRef (arrivals s evs)" by auto
next
  show "nextStartTimeRef (arrivals s (take k evs)) \<le> nextStartTimeRef (arrivals s (take (Suc k) evs))"
  proof (cases "k < length evs")
    case True
    obtain ct' b' where e: "evs ! k = (ct', b')" by (cases "evs ! k")
    have t: "take (Suc k) evs = take k evs @ [(ct', b')]"
      using True e by (simp add: take_Suc_conv_app_nth)
    let ?t = "arrivals s (take k evs)"
    show ?thesis
    proof (cases "onAudioData ?t ct' b'")
      case (Inl err)
      then show ?thesis unfolding t arrivals_snoc by simp
    next
      case (Inr t')
      from onAudioData_cases [OF Inr] have "nextStartTimeRef ?t \<le> nextStartTimeRef t'" by auto
      then show ?thesis unfolding t arrivals_snoc Inr by simp
    qed
  next
    case False
    then show ?thesis by simp
  qed
qed

theorem playback_schedule_witness:
  "(\<exists>s'. onAudioData (initialSession\<lparr>audioContextRef := Some Running\<rparr>) (1 / 2) ''AAAAAAAA'' = Inr s'
      \<and> effects s' = [SourceStart 0 (1 / 2) (1 / 8000)]
      \<and> nextStartTimeRef s' = 1 / 2 + 1 / 8000)
   \<and> nonOverlapping (scheduled (effects (arrivals (initialSession\<lparr>audioContextRef := Some Running\<rparr>)
        [(1 / 2, ''AAAAAAAA''), (0, ''AAAAAAAA'')])))"
proof -
  let ?s = "initialSession\<lparr>audioContextRef := Some Running\<rparr>"
  have b: "base64ToUint8Array ''AAAAAAAA'' = Inr [0, 0, 0, 0, 0, 0]"
    by (simp add: base64ToUint8Array_def atob_def isAsciiWhitespace_def stripPadding_def
        endsWith_def b64index_def Let_def)
  have p: "pcmToAudioBuffer [0, 0, 0, 0, 0, 0] 24000 = Inr \<lparr>channelData = [0, 0, 0], sampleRate = 24000\<rparr>"
    by (simp add: pcmToAudioBuffer_def)
  have h: "audioContextRef ?s \<noteq> None \<and> audioContextRef ?s \<noteq> Some Closed
      \<and> base64ToUint8Array ''AAAAAAAA'' = Inr [0, 0, 0, 0, 0, 0]
      \<and> pcmToAudioBuffer [0, 0, 0, 0, 0, 0] 24000 = Inr \<lparr>channelData = [0, 0, 0], sampleRate = 24000\<rparr>"
    using b p by simp
  have e: "effects ?s = []" "sourcesCreated ?s = 0" "nextStartTimeRef ?s = 0"
    by (simp_all add: initialSession_def)
  from playback_schedule [of ?s "''AAAAAAAA''" "[0, 0, 0, 0, 0, 0]"
      "\<lparr>channelData = [0, 0, 0], sampleRate = 24000\<rparr>" "1 / 2"
      "[(1 / 2, ''AAAAAAAA''), (0, ''AAAAAAAA'')]" 0] h
  show ?thesis by (simp add: e duration_def)
qed

text \<open>
  The clock is written by the audio callback only: a start, a render, the mute button, a
  log entry, the end of a playback and the teardown leave it as it is.
\<close>

lemma nextStartTimeRef_kept:
  "nextStartTimeRef (handleStart w s) = nextStartTimeRef s"
  "nextStartTimeRef (render s) = nextStartTimeRef s"
  "nextStartTimeRef (toggleMute s) = nextStartTimeRef s"
  "nextStartTimeRef (streamingLog r t now s) = nextStartTimeRef s"
  "nextStartTimeRef (onended source s) = nextStartTimeRef s"
  "nextStartTimeRef (teardownLocal s) = nextStartTimeRef s"
  by (simp_all add: handleStart_def startVoiceSession_def startTextSession_def Let_def
      setStatus_def render_def streamingLog_def toggleMute_def onended_def teardownLocal_def
      split: option.splits sum.splits promise.splits)

lemma handleDisconnect_nextStartTimeRef:
  assumes "handleDisconnect s = Inr s'"
  shows "nextStartTimeRef s' = nextStartTimeRef s"
  using assms
  by (auto simp: handleDisconnect_def nextStartTimeRef_kept(6) split: option.splits sum.splits)

text \<open>
  Three fragments of 500 ms, 300 ms and 700 ms (12000, 7200 and 16800 samples at 24 kHz)
  arriving in that order at an idle device at time 0 are started at 0, 0.5 and 0.8 seconds,
  and the clock ends at 1.5 seconds.
\<close>

lemma schedulePlayback_scenario:
  "scheduled (effects
     (schedulePlayback
       (schedulePlayback
         (schedulePlayback (initialSession\<lparr>audioContextRef := Some Running\<rparr>) 0
            \<lparr>channelData = replicate 12000 0, sampleRate = 24000\<rparr>) 0
         \<lparr>channelData = replicate 7200 0, sampleRate = 24000\<rparr>) 0
       \<lparr>channelData = replicate 16800 0, sampleRate = 24000\<rparr>))
   = [(0, 1 / 2), (1 / 2, 3 / 10), (4 / 5, 7 / 10)]
   \<and> nextStartTimeRef
     (schedulePlayback
       (schedulePlayback
         (schedulePlayback (initialSession\<lparr>audioContextRef := Some Running\<rparr>) 0
            \<lparr>channelData = replicate 12000 0, sampleRate = 24000\<rparr>) 0
         \<lparr>channelData = replicate 7200 0, sampleRate = 24000\<rparr>) 0
       \<lparr>channelData = replicate 16800 0, sampleRate = 24000\<rparr>)
   = 3 / 2"
  by (simp add: schedulePlayback_def initialSession_def duration_def Let_def)

end
